theory Spec2Isabelle
  imports Complex_Main "HOL-Library.AList"
begin

unbundle bit_operations_syntax

section \<open>Values shared by both modules\<close>

text \<open>
  A finite Python float is modelled as the real number it denotes. Where the result of an
  operation decides an integer, a branch or an exception (the product in
  \<open>optimal_base_for_value\<close>, the scaling in \<open>_write_price\<close>, the quotient and the
  power in \<open>estimate_slippage\<close>), its rounding to a double and its overflow to infinity
  are written out with \<open>round_double\<close> and \<open>double_overflows\<close> below. Elsewhere the
  operations on real-valued fields are taken exactly, so a field can differ from the
  program's in its last bits. NaN and infinite arguments are not modelled. Python integers
  are unbounded and are modelled as \<open>int\<close>; \<open>>>\<close>, \<open><<\<close>, \<open>&\<close> and \<open>|\<close> on them are
  \<open>drop_bit\<close>, \<open>push_bit\<close>, \<open>AND\<close> and \<open>OR\<close> on \<open>int\<close> (two's complement
  on an unbounded number of bits, as in Python).
\<close>

datatype error = OverflowError | ValueError | IndexError | TypeError | ZeroDivisionError
  | AttributeError

text \<open>\<open>int(x)\<close> on a finite float truncates towards zero.\<close>

definition py_int :: "real \<Rightarrow> int" where
  "py_int x = (if 0 \<le> x then \<lfloor>x\<rfloor> else \<lceil>x\<rceil>)"

subsection \<open>Double precision\<close>

text \<open>Rounding to the nearest integer, a tie going to the even one.\<close>

definition round_half_even :: "real \<Rightarrow> int" where
  "round_half_even x =
     (let n = \<lfloor>x\<rfloor>;
          r = x - of_int n
      in if r < 1 / 2 then n
         else if 1 / 2 < r then n + 1
         else if even n then n
         else n + 1)"

text \<open>
  The exponent of the unit in the last place of the double nearest to \<open>x\<close>: 52 below
  the exponent of \<open>x\<close> for a normal number, and \<open>-1074\<close> for a subnormal one.
\<close>

definition double_ulp_exponent :: "real \<Rightarrow> int" where
  "double_ulp_exponent x = max (\<lfloor>log 2 \<bar>x\<bar>\<rfloor> - 52) (- 1074)"

text \<open>
  The double that an exact result \<open>x\<close> is rounded to (IEEE 754 binary64, round to
  nearest, ties to even), for a result that does not overflow.
\<close>

definition round_double :: "real \<Rightarrow> real" where
  "round_double x =
     (if x = 0 then 0
      else (let e = double_ulp_exponent x
            in of_int (round_half_even (x / 2 powi e)) * 2 powi e))"

text \<open>
  An exact result rounds to infinity when its magnitude reaches the midpoint between the
  largest double, \<open>2^1024 - 2^971\<close>, and \<open>2^1024\<close>.
\<close>

definition double_overflows :: "real \<Rightarrow> bool" where
  "double_overflows x \<longleftrightarrow> 2 ^ 1024 - 2 ^ 970 \<le> \<bar>x\<bar>"

text \<open>Values stored in the result dictionaries.\<close>

datatype pyval = PBool bool | PInt int | PFloat real | PStr string

text \<open>
  A \<open>dict\<close> with string keys is an association list in insertion order;
  \<open>d[k] = v\<close> is \<open>AList.update k v d\<close> and \<open>d[k]\<close> is \<open>map_of d k\<close>.
\<close>

type_synonym pydict = "(string \<times> pyval) list"

definition dict_keys :: "pydict \<Rightarrow> string set" where
  "dict_keys d = fst ` set d"


section \<open>multi\_base\_optimizer.py: MultiBaseCalculator\<close>

datatype BaseSystem = BINARY | DECIMAL | DOZENAL

fun base_name :: "BaseSystem \<Rightarrow> string" where
  "base_name BINARY = ''BINARY''"
| "base_name DECIMAL = ''DECIMAL''"
| "base_name DOZENAL = ''DOZENAL''"

subsection \<open>optimal\_base\_for\_value\<close>

text \<open>
  The body of \<open>optimal_base_for_value\<close> after \<open>cents = int(abs(value) * 100)\<close>, on the
  integer \<open>cents\<close>, in the source's order.
\<close>

definition base_for_cents :: "int \<Rightarrow> BaseSystem" where
  "base_for_cents cents =
     (if cents = 0 then DECIMAL
      else if cents > 0 \<and> (cents AND (cents - 1)) = 0 then BINARY
      else if cents mod 12 = 0 \<or> cents mod 6 = 0 \<or> cents mod 4 = 0 then DOZENAL
      else if cents mod 10 = 0 then DECIMAL
      else
        (let base12_score = sum_list
               [of_bool (cents mod 2 = 0), of_bool (cents mod 3 = 0),
                of_bool (cents mod 4 = 0), of_bool (cents mod 6 = 0)] :: int
         in if base12_score \<ge> 2 then DOZENAL else DECIMAL))"

text \<open>
  \<open>cents = int(abs(value) * 100)\<close>: \<open>abs\<close> is exact, the product is rounded to a
  double, and \<open>int\<close> of an infinite product raises \<open>OverflowError\<close>.
\<close>

definition cents_of_value :: "real \<Rightarrow> error + int" where
  "cents_of_value v =
     (if double_overflows (\<bar>v\<bar> * 100) then Inl OverflowError
      else Inr (py_int (round_double (\<bar>v\<bar> * 100))))"

text \<open>A call of \<open>optimal_base_for_value\<close>, with its exception.\<close>

definition optimal_base_for_value_call :: "real \<Rightarrow> error + BaseSystem" where
  "optimal_base_for_value_call v =
     (case cents_of_value v of
        Inl e \<Rightarrow> Inl e
      | Inr cents \<Rightarrow> Inr (base_for_cents cents))"

text \<open>
  The base that a call returns when it returns, that is when the product is finite
  (\<open>|value|\<close> below about \<open>1.8e306\<close>); the price levels below use it in this form.
\<close>

definition optimal_base_for_value :: "real \<Rightarrow> BaseSystem" where
  "optimal_base_for_value v = base_for_cents (py_int (round_double (\<bar>v\<bar> * 100)))"

text \<open>
  The rule sequence in the words of the specification (section 4.3), on \<open>cents\<close>, for
  comparison with the source: first match wins.
\<close>

definition spec_rule_sequence :: "int \<Rightarrow> BaseSystem" where
  "spec_rule_sequence cents =
     (let score = length (filter (\<lambda>d. cents mod d = 0) [2, 3, 4, 6])
      in if cents = 0 then DECIMAL
         else if (cents AND (cents - 1)) = 0 then BINARY
         else if cents mod 12 = 0 \<or> cents mod 6 = 0 \<or> cents mod 4 = 0 then DOZENAL
         else if cents mod 10 = 0 then DECIMAL
         else if score \<ge> 2 then DOZENAL
         else DECIMAL)"

text \<open>
  The specification's step 1 read as mathematics: \<open>cents\<close> is the floor of the exact
  product.
\<close>

definition spec_optimal_base :: "real \<Rightarrow> BaseSystem" where
  "spec_optimal_base v = spec_rule_sequence \<lfloor>\<bar>v\<bar> * 100\<rfloor>"


subsection \<open>Dozenal conversion\<close>

definition DOZENAL_DIGITS :: string where
  "DOZENAL_DIGITS = ''0123456789AB''"

text \<open>
  \<open>s[i]\<close> on a Python sequence: a negative index counts from the end, and an index
  outside \<open>-len(s) .. len(s) - 1\<close> raises \<open>IndexError\<close>.
\<close>

definition py_getitem :: "'a list \<Rightarrow> int \<Rightarrow> error + 'a" where
  "py_getitem s i =
     (if 0 \<le> i \<and> i < int (length s) then Inr (s ! nat i)
      else if i < 0 \<and> - int (length s) \<le> i then Inr (s ! nat (int (length s) + i))
      else Inl IndexError)"

text \<open>
  \<open>_int_to_dozenal\<close>: the \<open>while value > 0\<close> loop appends the least significant digit
  first; \<open>result\<close> is the list built so far.
\<close>

function int_to_dozenal_loop :: "int \<Rightarrow> string \<Rightarrow> error + string" where
  "int_to_dozenal_loop v result =
     (if v > 0 then
        (case py_getitem DOZENAL_DIGITS (v mod 12) of
           Inl e \<Rightarrow> Inl e
         | Inr c \<Rightarrow> int_to_dozenal_loop (v div 12) (result @ [c]))
      else Inr result)"
  by pat_completeness auto
termination
  by (relation "measure (\<lambda>(v, result). nat v)") auto

declare int_to_dozenal_loop.simps [simp del]

definition int_to_dozenal :: "int \<Rightarrow> error + string" where
  "int_to_dozenal v =
     (if v = 0 then Inr ''0''
      else
        (let negative = v < 0 in
         case int_to_dozenal_loop \<bar>v\<bar> [] of
           Inl e \<Rightarrow> Inl e
         | Inr result \<Rightarrow>
             Inr (rev (if negative then result @ ''-'' else result))))"

text \<open>
  \<open>_frac_to_dozenal\<close>: the \<open>for _ in range(max_digits)\<close> loop, with the number of
  iterations left as first argument. The constant \<open>1e-10\<close> is taken as the rational
  \<open>1 / 10 ^ 10\<close>.
\<close>

fun frac_to_dozenal_loop :: "nat \<Rightarrow> real \<Rightarrow> string \<Rightarrow> error + string" where
  "frac_to_dozenal_loop 0 v result = Inr result"
| "frac_to_dozenal_loop (Suc n) v result =
     (let v1 = v * 12;
          digit = py_int v1
      in case py_getitem DOZENAL_DIGITS digit of
           Inl e \<Rightarrow> Inl e
         | Inr c \<Rightarrow>
             (let v2 = v1 - of_int digit
              in if v2 < 1 / 10 ^ 10 then Inr (result @ [c])
                 else frac_to_dozenal_loop n v2 (result @ [c])))"

definition frac_to_dozenal :: "real \<Rightarrow> nat \<Rightarrow> error + string" where
  "frac_to_dozenal v max_digits =
     (if v = 0 then Inr [] else frac_to_dozenal_loop max_digits v [])"

definition to_dozenal :: "real \<Rightarrow> error + string" where
  "to_dozenal decimal_value =
     (if decimal_value = 0 then Inr ''0''
      else
        (let integer_part = py_int decimal_value;
             fractional_part = decimal_value - of_int integer_part
         in case int_to_dozenal integer_part of
              Inl e \<Rightarrow> Inl e
            | Inr dozenal_int \<Rightarrow>
                (case frac_to_dozenal fractional_part 8 of
                   Inl e \<Rightarrow> Inl e
                 | Inr dozenal_frac \<Rightarrow>
                     if dozenal_frac \<noteq> [] then Inr (dozenal_int @ ''.'' @ dozenal_frac)
                     else Inr dozenal_int)))"

text \<open>\<open>str.upper\<close> on one ASCII character.\<close>

definition py_upper :: "char \<Rightarrow> char" where
  "py_upper c =
     (let n = of_char c :: nat in if 97 \<le> n \<and> n \<le> 122 then char_of (n - 32) else c)"

text \<open>\<open>s.index(c)\<close> for a single character: the first position, or \<open>ValueError\<close>.\<close>

fun index_from :: "nat \<Rightarrow> char \<Rightarrow> string \<Rightarrow> error + nat" where
  "index_from i c [] = Inl ValueError"
| "index_from i c (x # xs) = (if x = c then Inr i else index_from (Suc i) c xs)"

definition py_str_index :: "string \<Rightarrow> char \<Rightarrow> error + nat" where
  "py_str_index s c = index_from 0 c s"

text \<open>\<open>s.split(sep)\<close> with a one-character separator; the result is never empty.\<close>

fun py_split :: "char \<Rightarrow> string \<Rightarrow> string list" where
  "py_split sep [] = [[]]"
| "py_split sep (c # cs) =
     (if c = sep then [] # py_split sep cs
      else (case py_split sep cs of [] \<Rightarrow> [[c]] | p # ps \<Rightarrow> (c # p) # ps))"

text \<open>
  The two accumulation loops of \<open>from_dozenal\<close>: \<open>i\<close> is the index \<open>enumerate\<close>
  supplies, \<open>result\<close> the running sum.
\<close>

fun from_dozenal_int_loop :: "nat \<Rightarrow> string \<Rightarrow> real \<Rightarrow> error + real" where
  "from_dozenal_int_loop i [] result = Inr result"
| "from_dozenal_int_loop i (digit # ds) result =
     (case py_str_index DOZENAL_DIGITS (py_upper digit) of
        Inl e \<Rightarrow> Inl e
      | Inr digit_value \<Rightarrow>
          from_dozenal_int_loop (Suc i) ds (result + of_nat digit_value * 12 ^ i))"

fun from_dozenal_frac_loop :: "nat \<Rightarrow> string \<Rightarrow> real \<Rightarrow> error + real" where
  "from_dozenal_frac_loop i [] result = Inr result"
| "from_dozenal_frac_loop i (digit # ds) result =
     (case py_str_index DOZENAL_DIGITS (py_upper digit) of
        Inl e \<Rightarrow> Inl e
      | Inr digit_value \<Rightarrow>
          from_dozenal_frac_loop (Suc i) ds
            (result + of_nat digit_value * (1 / 12 ^ (i + 1))))"

definition from_dozenal :: "string \<Rightarrow> error + real" where
  "from_dozenal dozenal_str =
     (let negative = (take 1 dozenal_str = ''-'');
          s = (if negative then drop 1 dozenal_str else dozenal_str);
          parts = py_split CHR ''.'' s;
          integer_str = hd parts;
          fractional_str = (if length parts > 1 then parts ! 1 else [])
      in case from_dozenal_int_loop 0 (rev integer_str) 0 of
           Inl e \<Rightarrow> Inl e
         | Inr r1 \<Rightarrow>
             (case from_dozenal_frac_loop 0 fractional_str r1 of
                Inl e \<Rightarrow> Inl e
              | Inr result \<Rightarrow> Inr (if negative then - result else result)))"


text \<open>
  A character that \<open>from_dozenal\<close> reads as the digit \<open>n\<close> and that is neither the
  separator nor the sign.
\<close>

definition digit_char :: "char \<Rightarrow> nat \<Rightarrow> bool" where
  "digit_char c n \<longleftrightarrow>
     py_str_index DOZENAL_DIGITS (py_upper c) = Inr n \<and> c \<noteq> CHR ''.'' \<and> c \<noteq> CHR ''-''"


section \<open>multi\_base\_optimizer.py: HFTOptimizer\<close>

text \<open>
  \<open>self.performance_stats\<close>: the four counters start at 0 and the source only ever
  adds 1 to them, so they are natural numbers.
\<close>

record performance_stats =
  base12_operations :: nat
  base10_operations :: nat
  base2_operations :: nat
  total_savings_cycles :: nat

definition initial_stats :: performance_stats where
  "initial_stats =
     \<lparr>base12_operations = 0, base10_operations = 0, base2_operations = 0,
      total_savings_cycles = 0\<rparr>"

definition stats_dict :: "performance_stats \<Rightarrow> pydict" where
  "stats_dict s =
     [(''base12_operations'', PInt (int (base12_operations s))),
      (''base10_operations'', PInt (int (base10_operations s))),
      (''base2_operations'', PInt (int (base2_operations s))),
      (''total_savings_cycles'', PInt (int (total_savings_cycles s)))]"

subsection \<open>Per-base price levels\<close>

definition optimize_dozenal ::
  "real \<Rightarrow> real \<Rightarrow> real \<Rightarrow> real \<Rightarrow> string \<Rightarrow> error + pydict" where
  "optimize_dozenal bid ask last_price spread strategy =
     (let mid_price = (bid + ask) / 2
      in case to_dozenal mid_price of
           Inl e \<Rightarrow> Inl e
         | Inr mid_dozenal \<Rightarrow>
             (case to_dozenal spread of
                Inl e \<Rightarrow> Inl e
              | Inr spread_dozenal \<Rightarrow>
                  (let (entry_offset, exit_offset) =
                         (if strategy = ''market_making'' then (spread / 12, spread * 11 / 12)
                          else if strategy = ''mean_reversion'' then (spread / 4, spread / 2)
                          else (spread / 6, spread / 3));
                       entry_price = mid_price + entry_offset;
                       exit_price = mid_price + exit_offset;
                       cycles_saved = 15
                   in Inr [(''entry_price'', PFloat entry_price),
                           (''exit_price'', PFloat exit_price),
                           (''entry_offset'', PFloat entry_offset),
                           (''exit_offset'', PFloat exit_offset),
                           (''cycles_saved'', PInt cycles_saved),
                           (''dozenal_mid'', PStr mid_dozenal),
                           (''dozenal_spread'', PStr spread_dozenal)])))"

definition optimize_binary ::
  "real \<Rightarrow> real \<Rightarrow> real \<Rightarrow> real \<Rightarrow> string \<Rightarrow> pydict" where
  "optimize_binary bid ask last_price spread strategy =
     (let mid_price = (bid + ask) / 2;
          (entry_offset, exit_offset) =
            (if strategy = ''market_making'' then (spread / 8, spread * 7 / 8)
             else if strategy = ''momentum'' then (spread / 16, spread / 4)
             else (spread / 4, spread / 2));
          entry_price = mid_price + entry_offset;
          exit_price = mid_price + exit_offset;
          cycles_saved = 20
      in [(''entry_price'', PFloat entry_price),
          (''exit_price'', PFloat exit_price),
          (''entry_offset'', PFloat entry_offset),
          (''exit_offset'', PFloat exit_offset),
          (''cycles_saved'', PInt cycles_saved)])"

definition optimize_decimal ::
  "real \<Rightarrow> real \<Rightarrow> real \<Rightarrow> real \<Rightarrow> string \<Rightarrow> pydict" where
  "optimize_decimal bid ask last_price spread strategy =
     (let mid_price = (bid + ask) / 2;
          (entry_offset, exit_offset) =
            (if strategy = ''market_making'' then (spread * 0.1, spread * 0.9)
             else if strategy = ''arbitrage'' then (spread * 0.05, spread * 0.95)
             else (spread * 0.2, spread * 0.8));
          entry_price = mid_price + entry_offset;
          exit_price = mid_price + exit_offset;
          cycles_saved = 0
      in [(''entry_price'', PFloat entry_price),
          (''exit_price'', PFloat exit_price),
          (''entry_offset'', PFloat entry_offset),
          (''exit_offset'', PFloat exit_offset),
          (''cycles_saved'', PInt cycles_saved)])"

subsection \<open>optimize\_price\_levels\<close>

text \<open>
  The optimizer's counters are passed in and returned updated. The three assignments
  after the branch are dictionary stores on the branch's result.
\<close>

definition finish_result :: "BaseSystem \<Rightarrow> real \<Rightarrow> real \<Rightarrow> pydict \<Rightarrow> pydict" where
  "finish_result base mid_price spread result =
     AList.update ''spread'' (PFloat spread)
       (AList.update ''mid_price'' (PFloat mid_price)
          (AList.update ''base_used'' (PStr (base_name base)) result))"

definition optimize_price_levels ::
  "performance_stats \<Rightarrow> real \<Rightarrow> real \<Rightarrow> real \<Rightarrow> string \<Rightarrow>
     error + (pydict \<times> performance_stats)" where
  "optimize_price_levels stats bid ask last_price strategy =
     (let mid_price = (bid + ask) / 2;
          spread = ask - bid;
          base = optimal_base_for_value mid_price
      in if base = DOZENAL then
           (case optimize_dozenal bid ask last_price spread strategy of
              Inl e \<Rightarrow> Inl e
            | Inr result \<Rightarrow>
                Inr (finish_result base mid_price spread result,
                     stats\<lparr>base12_operations := base12_operations stats + 1\<rparr>))
         else if base = BINARY then
           Inr (finish_result base mid_price spread
                  (optimize_binary bid ask last_price spread strategy),
                stats\<lparr>base2_operations := base2_operations stats + 1\<rparr>)
         else
           Inr (finish_result base mid_price spread
                  (optimize_decimal bid ask last_price spread strategy),
                stats\<lparr>base10_operations := base10_operations stats + 1\<rparr>))"



subsection \<open>estimate\_slippage\<close>


subsection \<open>get\_performance\_stats\<close>

text \<open>\<open>a / b\<close> on integers: true division, \<open>ZeroDivisionError\<close> when \<open>b\<close> is 0.\<close>

definition py_truediv :: "int \<Rightarrow> int \<Rightarrow> error + real" where
  "py_truediv a b = (if b = 0 then Inl ZeroDivisionError else Inr (real_of_int a / real_of_int b))"

definition get_performance_stats :: "performance_stats \<Rightarrow> error + pydict" where
  "get_performance_stats s =
     (let total_ops = sum_list
            [int (base12_operations s), int (base10_operations s), int (base2_operations s)]
      in if total_ops = 0 then Inr (stats_dict s)
         else
           (case py_truediv (100 * int (base12_operations s)) total_ops of
              Inl e \<Rightarrow> Inl e
            | Inr p12 \<Rightarrow>
                (case py_truediv (100 * int (base10_operations s)) total_ops of
                   Inl e \<Rightarrow> Inl e
                 | Inr p10 \<Rightarrow>
                     (case py_truediv (100 * int (base2_operations s)) total_ops of
                        Inl e \<Rightarrow> Inl e
                      | Inr p2 \<Rightarrow>
                          Inr (AList.update ''base2_percentage'' (PFloat p2)
                                (AList.update ''base10_percentage'' (PFloat p10)
                                  (AList.update ''base12_percentage'' (PFloat p12)
                                    (AList.update ''total_operations'' (PInt total_ops)
                                      (stats_dict s)))))))))"


section \<open>pynq\_optimizer\_driver.py: MultiBaseOptimizer\<close>

subsection \<open>Register map\<close>

definition REG_STATUS :: int where "REG_STATUS = 0x004"
definition REG_BID_PRICE_H :: int where "REG_BID_PRICE_H = 0x008"
definition REG_BID_PRICE_L :: int where "REG_BID_PRICE_L = 0x00C"

subsection \<open>Driver state and register access\<close>

text \<open>
  The driver object: \<open>simulation_mode\<close>, and \<open>self.mmio\<close>, which is \<open>None\<close> until a
  bitstream has been loaded. An initialised MMIO window is represented by the list of
  \<open>mmio.write(offset, value)\<close> calls made through it, oldest first. What
  \<open>mmio.read(offset)\<close> returns is decided by the peripheral and is an argument of
  \<open>read_reg\<close>.
\<close>

record driver =
  simulation_mode :: bool
  mmio :: "(int \<times> int) list option"

text \<open>Sequencing of calls that may raise.\<close>

definition and_then :: "error + 'a \<Rightarrow> ('a \<Rightarrow> error + 'b) \<Rightarrow> error + 'b" where
  "and_then r f = (case r of Inl e \<Rightarrow> Inl e | Inr x \<Rightarrow> f x)"

definition write_reg :: "driver \<Rightarrow> int \<Rightarrow> int \<Rightarrow> error + driver" where
  "write_reg d offset v =
     (if simulation_mode d then Inr d
      else (case mmio d of
              None \<Rightarrow> Inl AttributeError
            | Some ws \<Rightarrow> Inr (d\<lparr>mmio := Some (ws @ [(offset, v AND 0xFFFFFFFF)])\<rparr>)))"


subsection \<open>The 16.32 fixed-point price format\<close>

text \<open>
  The two words \<open>(price_h, price_l)\<close> that \<open>_write_price\<close> computes from a price
  whose scaled value is finite, and the value \<open>_read_price\<close> computes from the two
  words it has read.
\<close>

definition price_words :: "real \<Rightarrow> int \<times> int" where
  "price_words price =
     (let fixed_price = py_int (price * 2 ^ 32);
          price_h = (drop_bit 32 fixed_price) AND 0xFFFF;
          price_l = fixed_price AND 0xFFFFFFFF
      in (price_h, price_l))"

definition write_price :: "driver \<Rightarrow> int \<Rightarrow> int \<Rightarrow> real \<Rightarrow> error + driver" where
  "write_price d reg_h reg_l price =
     (let (price_h, price_l) = price_words price
      in and_then (write_reg d reg_h price_h) (\<lambda>d1. write_reg d1 reg_l price_l))"

text \<open>
  \<open>_write_price\<close> with its exception. \<open>price * (2**32)\<close> is exact on a double unless
  it is infinite, which is when the exact product reaches \<open>2^1024\<close>, that is
  \<open>|price| \<ge> 2^992\<close>; \<open>int\<close> of an infinite float raises \<open>OverflowError\<close>, before
  either register is written and in simulation mode too. Below that bound the call is
  \<open>write_price\<close>.
\<close>

definition encode_price :: "real \<Rightarrow> error + (int \<times> int)" where
  "encode_price price =
     (if 2 ^ 1024 \<le> \<bar>price * 2 ^ 32\<bar> then Inl OverflowError
      else Inr (price_words price))"

definition write_price_call :: "driver \<Rightarrow> int \<Rightarrow> int \<Rightarrow> real \<Rightarrow> error + driver" where
  "write_price_call d reg_h reg_l price =
     (case encode_price price of
        Inl e \<Rightarrow> Inl e
      | Inr (price_h, price_l) \<Rightarrow>
          and_then (write_reg d reg_h price_h) (\<lambda>d1. write_reg d1 reg_l price_l))"

definition words_price :: "int \<Rightarrow> int \<Rightarrow> real" where
  "words_price price_h price_l =
     (let fixed_price = (push_bit 32 (price_h AND 0xFFFF)) OR price_l
      in real_of_int fixed_price / 2 ^ 32)"


subsection \<open>Simulation mode\<close>


subsection \<open>The peripheral as seen during one call\<close>













section \<open>Properties of rounding to double\<close>

lemma py_int_nonneg: "0 \<le> x \<Longrightarrow> py_int x = \<lfloor>x\<rfloor>"
  by (simp add: py_int_def)

lemma floor_log2_eq:
  assumes "2 powi k \<le> x" and "x < 2 powi (k + 1)"
  shows "\<lfloor>log 2 x\<rfloor> = k"
proof -
  have "0 < (2::real) powi k" by simp
  with assms have x: "0 < x" by linarith
  have "2 powr (real_of_int k) = (2::real) powi k"
    by (simp add: powr_real_of_int')
  moreover have "2 powr (real_of_int k + 1) = (2::real) powi (k + 1)"
    using powr_real_of_int' [of 2 "k + 1"] by simp
  ultimately show ?thesis
    using floor_log_eq_powr_iff [of x 2 k] x assms by simp
qed



text \<open>How a number between two consecutive powers of two is rounded.\<close>

lemma round_double_normal:
  assumes "2 powi k \<le> \<bar>x\<bar>" and "\<bar>x\<bar> < 2 powi (k + 1)" and "- 1022 \<le> k"
  shows "round_double x = of_int (round_half_even (x / 2 powi (k - 52))) * 2 powi (k - 52)"
proof -
  have "0 < (2::real) powi k" by simp
  with assms(1) have "0 < \<bar>x\<bar>" by linarith
  then have "x \<noteq> 0" by simp
  moreover have "double_ulp_exponent x = k - 52"
    using floor_log2_eq [OF assms(1,2)] assms(3) by (simp add: double_ulp_exponent_def)
  ultimately show ?thesis by (simp add: round_double_def Let_def)
qed

lemma round_half_even_ge:
  assumes "of_int m \<le> y"
  shows "m \<le> round_half_even y"
proof -
  have "m \<le> \<lfloor>y\<rfloor>" using assms by (simp add: le_floor_iff)
  then show ?thesis unfolding round_half_even_def Let_def by auto
qed

lemma round_double_nonneg:
  assumes "0 \<le> x"
  shows "0 \<le> round_double x"
proof (cases "x = 0")
  case True
  then show ?thesis by (simp add: round_double_def)
next
  case False
  define e where "e = double_ulp_exponent x"
  have "of_int 0 \<le> x / 2 powi e" using assms by simp
  then have "0 \<le> round_half_even (x / 2 powi e)" by (rule round_half_even_ge)
  then show ?thesis using False by (simp add: round_double_def Let_def e_def [symmetric])
qed


text \<open>The doubles that the literals and products used below denote.\<close>

lemma round_double_examples:
  "round_double 100 = 100"
  "round_double 2.56 = 5764607523034235 / 2 ^ 51"
  "round_double (\<bar>5764607523034235 / 2 ^ 51\<bar> * 100) = 256"
  "round_double 1.20 = 5404319552844595 / 2 ^ 52"
  "round_double (\<bar>5404319552844595 / 2 ^ 52\<bar> * 100) = 120"
  "round_double 0.03 = 8646911284551352 / 2 ^ 58"
  "round_double (\<bar>8646911284551352 / 2 ^ 58\<bar> * 100) = 3"
  "round_double 0.29 = 5224175567749775 / 2 ^ 54"
  "round_double (\<bar>5224175567749775 / 2 ^ 54\<bar> * 100) = 8162774324609023 / 2 ^ 48"
  "round_double (20053 / 2) = 20053 / 2"
  "round_double 1 = 1"
  "round_double (- 1) = - 1"
proof -
  show "round_double 100 = 100"
    by (subst round_double_normal [where k = 6]) (simp_all add: round_half_even_def)
  show "round_double 2.56 = 5764607523034235 / 2 ^ 51"
    by (subst round_double_normal [where k = 1]) (simp_all add: round_half_even_def)
  show "round_double (\<bar>5764607523034235 / 2 ^ 51\<bar> * 100) = 256"
    by (subst round_double_normal [where k = 8]) (simp_all add: round_half_even_def)
  show "round_double 1.20 = 5404319552844595 / 2 ^ 52"
    by (subst round_double_normal [where k = 0]) (simp_all add: round_half_even_def)
  show "round_double (\<bar>5404319552844595 / 2 ^ 52\<bar> * 100) = 120"
    by (subst round_double_normal [where k = 6]) (simp_all add: round_half_even_def)
  show "round_double 0.03 = 8646911284551352 / 2 ^ 58"
    by (subst round_double_normal [where k = "- 6"]) (simp_all add: round_half_even_def)
  show "round_double (\<bar>8646911284551352 / 2 ^ 58\<bar> * 100) = 3"
    by (subst round_double_normal [where k = 1]) (simp_all add: round_half_even_def)
  show "round_double 0.29 = 5224175567749775 / 2 ^ 54"
    by (subst round_double_normal [where k = "- 2"]) (simp_all add: round_half_even_def)
  show "round_double (\<bar>5224175567749775 / 2 ^ 54\<bar> * 100) = 8162774324609023 / 2 ^ 48"
    by (subst round_double_normal [where k = 4]) (simp_all add: round_half_even_def)
  show "round_double (20053 / 2) = 20053 / 2"
    by (subst round_double_normal [where k = 13]) (simp_all add: round_half_even_def)
  show "round_double 1 = 1"
    by (subst round_double_normal [where k = 0]) (simp_all add: round_half_even_def)
  show "round_double (- 1) = - 1"
    by (subst round_double_normal [where k = 0]) (simp_all add: round_half_even_def)
qed


section \<open>Properties of the base selector\<close>

text \<open>On a number of cents that is not negative the source's chain is the rule sequence.\<close>

lemma base_for_cents_spec: "0 \<le> cents \<Longrightarrow> base_for_cents cents = spec_rule_sequence cents"
  unfolding spec_rule_sequence_def base_for_cents_def Let_def
  by (auto simp: less_le)

lemma cents_nonneg: "0 \<le> py_int (round_double (\<bar>v\<bar> * 100))"
proof -
  have "0 \<le> round_double (\<bar>v\<bar> * 100)" by (rule round_double_nonneg) simp
  then show ?thesis by (simp add: py_int_def)
qed

text \<open>A call returns the base used by the price levels whenever it returns.\<close>

lemma optimal_base_for_value_call_eq:
  "optimal_base_for_value_call v =
     (if double_overflows (\<bar>v\<bar> * 100) then Inl OverflowError
      else Inr (optimal_base_for_value v))"
  by (simp add: optimal_base_for_value_call_def cents_of_value_def optimal_base_for_value_def)

text \<open>
  Claim C4, as stated: for every value the base is the one the rule sequence gives for
  \<open>cents = floor(|value| * 100)\<close>. The source computes \<open>int(abs(value) * 100)\<close> with the
  product rounded to a double, and the two differ on ordinary prices. For the double that
  \<open>0.03\<close> denotes, the exact product is just below 3 and its floor is 2 (Binary), while
  the rounded product is \<open>3.0\<close> and the source takes \<open>cents = 3\<close> (Decimal). For
  \<open>0.29\<close>, the floor of \<open>0.29 * 100\<close> is 29 (Decimal), while the double nearest to
  \<open>0.29\<close> times 100 rounds to \<open>28.999999999999996\<close> and the source takes
  \<open>cents = 28\<close> (Dozenal).
\<close>

theorem optimal_base_floor_differs:
  "optimal_base_for_value_call (round_double 0.03) = Inr DECIMAL \<and>
   spec_optimal_base (round_double 0.03) = BINARY \<and>
   optimal_base_for_value_call (round_double 0.29) = Inr DOZENAL \<and>
   spec_optimal_base 0.29 = DECIMAL"
proof -
  have small: "\<not> double_overflows (\<bar>8646911284551352 / 2 ^ 58\<bar> * 100)"
    "\<not> double_overflows (\<bar>5224175567749775 / 2 ^ 54\<bar> * 100)"
    by (simp_all add: double_overflows_def)
  have a: "optimal_base_for_value_call (round_double 0.03) = Inr DECIMAL"
    unfolding optimal_base_for_value_call_def cents_of_value_def round_double_examples
    using small(1) by (simp add: base_for_cents_def py_int_def)
  have b: "spec_optimal_base (round_double 0.03) = BINARY"
    unfolding spec_optimal_base_def round_double_examples
    by (simp add: spec_rule_sequence_def)
  have c: "optimal_base_for_value_call (round_double 0.29) = Inr DOZENAL"
    unfolding optimal_base_for_value_call_def cents_of_value_def round_double_examples
    using small(2) by (simp add: base_for_cents_def py_int_def)
  have d: "spec_optimal_base 0.29 = DECIMAL"
    by (simp add: spec_optimal_base_def spec_rule_sequence_def)
  from a b c d show ?thesis by blast
qed

text \<open>
  Claim C4, amended: for every value, \<open>optimal_base_for_value\<close> returns the base chosen
  by the first-match-wins rule sequence of the specification over
  \<open>cents = int(|value| * 100)\<close>, where the product is the double-precision product
  (the exact product rounded to the nearest double, so \<open>cents\<close> can differ by one from
  the floor of the exact product); when the product is infinite (\<open>|value| * 100\<close> at or
  above \<open>2^1024 - 2^970\<close>) the call raises \<open>OverflowError\<close> instead. In particular it
  returns Decimal at 0, Binary at 2.56 and Dozenal at 1.20.
\<close>

theorem optimal_base_rounded_cents:
  "optimal_base_for_value_call v =
     (if 2 ^ 1024 - 2 ^ 970 \<le> \<bar>v\<bar> * 100 then Inl OverflowError
      else Inr (spec_rule_sequence (py_int (round_double (\<bar>v\<bar> * 100))))) \<and>
   optimal_base_for_value_call 0 = Inr DECIMAL \<and>
   optimal_base_for_value_call (round_double 2.56) = Inr BINARY \<and>
   optimal_base_for_value_call (round_double 1.20) = Inr DOZENAL"
proof -
  have general: "optimal_base_for_value_call v =
     (if 2 ^ 1024 - 2 ^ 970 \<le> \<bar>v\<bar> * 100 then Inl OverflowError
      else Inr (spec_rule_sequence (py_int (round_double (\<bar>v\<bar> * 100)))))"
    by (simp add: optimal_base_for_value_call_def cents_of_value_def double_overflows_def
        base_for_cents_spec [OF cents_nonneg])
  have zero: "optimal_base_for_value_call 0 = Inr DECIMAL"
    by (simp add: optimal_base_for_value_call_def cents_of_value_def double_overflows_def
        round_double_def base_for_cents_def py_int_def)
  have small: "\<not> double_overflows (\<bar>5764607523034235 / 2 ^ 51\<bar> * 100)"
    "\<not> double_overflows (\<bar>5404319552844595 / 2 ^ 52\<bar> * 100)"
    by (simp_all add: double_overflows_def)
  have pow2: "optimal_base_for_value_call (round_double 2.56) = Inr BINARY"
    unfolding optimal_base_for_value_call_def cents_of_value_def round_double_examples
    using small(1) by (simp add: base_for_cents_def py_int_def)
  have twelve: "optimal_base_for_value_call (round_double 1.20) = Inr DOZENAL"
    unfolding optimal_base_for_value_call_def cents_of_value_def round_double_examples
    using small(2) by (simp add: base_for_cents_def py_int_def)
  from general zero pow2 twelve show ?thesis by blast
qed

text \<open>
  Claim C5, as stated: \<open>optimal_base_for_value(1.00)\<close> is Decimal. It is not: with
  \<open>cents = 100\<close> the divisibility rule of step 3 matches, since \<open>100 % 4 == 0\<close>.
\<close>

theorem optimal_base_one_not_decimal:
  "optimal_base_for_value 1.00 \<noteq> DECIMAL"
  by (simp add: optimal_base_for_value_def base_for_cents_def py_int_def
      round_double_examples)

text \<open>
  Claim C5, amended: \<open>optimal_base_for_value(1.00)\<close> is Dozenal. With \<open>cents = 100\<close>
  the power-of-two rule does not match (\<open>100 & 99 = 96\<close>), and the base-12 divisibility
  rule matches through \<open>cents % 4 == 0\<close>, before the divisibility-by-10 rule is reached.
\<close>

theorem optimal_base_one_dozenal:
  "optimal_base_for_value 1.00 = DOZENAL \<and>
   py_int (\<bar>1.00\<bar> * 100) = 100 \<and>
   (100 AND (100 - 1)) = (96 :: int) \<and>
   (100 :: int) mod 4 = 0 \<and>
   base_for_cents 100 = DOZENAL"
  by (simp add: optimal_base_for_value_def base_for_cents_def py_int_def
      round_double_examples)


section \<open>Properties of the fixed-point price format\<close>

lemma and_ffff: "(x::int) AND 0xFFFF = take_bit 16 x"
  by (simp add: take_bit_eq_mask mask_eq_exp_minus_1)

lemma and_ffffffff: "(x::int) AND 0xFFFFFFFF = take_bit 32 x"
  by (simp add: take_bit_eq_mask mask_eq_exp_minus_1)

lemma recombine:
  "push_bit 32 (take_bit 16 (drop_bit 32 x)) OR take_bit 32 x = take_bit 48 (x::int)"
  by (rule bit_eqI) (auto simp: bit_simps)

lemma price_words_eq:
  "price_words p =
     (take_bit 16 (drop_bit 32 (py_int (p * 2 ^ 32))), take_bit 32 (py_int (p * 2 ^ 32)))"
  unfolding price_words_def Let_def and_ffff and_ffffffff ..

text \<open>Reading back the two words gives the scaled integer modulo \<open>2 ^ 48\<close>.\<close>

lemma words_price_price_words:
  "words_price (fst (price_words p)) (snd (price_words p)) =
     real_of_int (py_int (p * 2 ^ 32) mod 2 ^ 48) / 2 ^ 32"
proof -
  have "words_price (fst (price_words p)) (snd (price_words p)) =
        real_of_int (take_bit 48 (py_int (p * 2 ^ 32))) / 2 ^ 32"
    by (simp only: price_words_eq words_price_def Let_def and_ffff fst_conv snd_conv
        take_bit_take_bit min.idem recombine)
  then show ?thesis by (simp only: take_bit_eq_mod)
qed

lemma price_words_sum:
  "fst (price_words p) * 2 ^ 32 + snd (price_words p) = py_int (p * 2 ^ 32) mod 2 ^ 48"
proof -
  let ?x = "py_int (p * 2 ^ 32)"
  have "fst (price_words p) * 2 ^ 32 + snd (price_words p) =
        push_bit 32 (take_bit 16 (drop_bit 32 ?x)) + take_bit 32 ?x"
    unfolding price_words_eq fst_conv snd_conv push_bit_eq_mult ..
  also have "\<dots> = push_bit 32 (take_bit 16 (drop_bit 32 ?x)) OR take_bit 32 ?x"
    by (rule disjunctive_add_eq_or) (auto simp: bit_eq_iff bit_simps)
  also have "\<dots> = take_bit 48 ?x"
    by (rule recombine)
  also have "\<dots> = ?x mod 2 ^ 48"
    by (rule take_bit_eq_mod)
  finally show ?thesis .
qed

text \<open>
  Claim C1, as stated: for every price with \<open>|price| < 2^16\<close>, negative ones included,
  decoding the encoded words gives the price back to within \<open>2^-32\<close>. At \<open>price = -1\<close>
  the words are \<open>(0xFFFF, 0)\<close> and they decode to \<open>65535\<close>: the decoder does not
  sign-extend.
\<close>

theorem price_roundtrip_negative_fails:
  "\<bar>- 1 :: real\<bar> < 2 ^ 16 \<and>
   price_words (- 1) = (0xFFFF, 0) \<and>
   words_price (fst (price_words (- 1))) (snd (price_words (- 1))) = 65535 \<and>
   \<not> \<bar>words_price (fst (price_words (- 1))) (snd (price_words (- 1))) - (- 1)\<bar>
        \<le> 1 / 2 ^ 32"
  by (simp add: words_price_def price_words_def py_int_def)

text \<open>
  Claim C1, amended: for every price with \<open>0 \<le> price < 2^16\<close>, decoding the encoded
  words gives the price back to within \<open>2^-32\<close>.
\<close>

theorem price_roundtrip_nonneg:
  assumes "0 \<le> p" and "p < 2 ^ 16"
  shows "\<bar>words_price (fst (price_words p)) (snd (price_words p)) - p\<bar> < 1 / 2 ^ 32"
proof -
  define x where "x = \<lfloor>p * 2 ^ 32\<rfloor>"
  define w where "w = words_price (fst (price_words p)) (snd (price_words p))"
  have x0: "0 \<le> x" using assms by (simp add: x_def)
  have "p * 2 ^ 32 < 2 ^ 16 * 2 ^ 32" using assms by simp
  then have "p * 2 ^ 32 < 2 ^ 48" by simp
  then have x1: "x < 2 ^ 48" by (simp add: floor_less_iff x_def)
  have eq: "py_int (p * 2 ^ 32) mod 2 ^ 48 = x"
    using x0 x1 assms by (simp add: py_int_def x_def)
  have lo: "real_of_int x \<le> p * 2 ^ 32" by (simp add: x_def)
  have hi: "p * 2 ^ 32 < real_of_int x + 1" unfolding x_def by linarith
  have w: "w = real_of_int x / 2 ^ 32"
    unfolding w_def by (simp only: words_price_price_words eq)
  have "w \<le> p" using lo by (simp add: w field_simps)
  moreover have "p - 1 / 2 ^ 32 < w" using hi by (simp add: w field_simps)
  ultimately show ?thesis unfolding w_def [symmetric] by (simp add: abs_less_iff)
qed

theorem price_roundtrip_nonneg_witness:
  "(0 :: real) \<le> 100.25 \<and> (100.25 :: real) < 2 ^ 16 \<and>
   \<bar>words_price (fst (price_words 100.25)) (snd (price_words 100.25)) - 100.25\<bar>
     < 1 / 2 ^ 32"
proof -
  have a: "(0 :: real) \<le> 100.25" by simp
  have b: "(100.25 :: real) < 2 ^ 16" by simp
  from a b price_roundtrip_nonneg [OF a b] show ?thesis by blast
qed

text \<open>
  Register writes keep the low 32 bits of the value; the two price words already fit.
\<close>

lemma price_words_fit:
  "fst (price_words p) AND 0xFFFFFFFF = fst (price_words p)"
  "snd (price_words p) AND 0xFFFFFFFF = snd (price_words p)"
  by (simp_all add: price_words_eq and_ffffffff take_bit_take_bit)

lemma write_price_eq:
  "write_price d reg_h reg_l price =
     (if simulation_mode d then Inr d
      else (case mmio d of
              None \<Rightarrow> Inl AttributeError
            | Some ws \<Rightarrow>
                Inr (d\<lparr>mmio := Some (ws @ [(reg_h, fst (price_words price)),
                                            (reg_l, snd (price_words price))])\<rparr>)))"
  by (cases "mmio d")
     (simp_all add: write_price_def write_reg_def and_then_def price_words_fit
        split_beta Let_def)

text \<open>Below \<open>2^992\<close> the call with its exception is the call without it.\<close>

lemma encode_price_in_range:
  assumes "\<bar>price\<bar> < 2 ^ 992"
  shows "encode_price price = Inr (price_words price)"
proof -
  have "\<bar>price * 2 ^ 32\<bar> = \<bar>price\<bar> * 2 ^ 32" by (simp add: abs_mult)
  also have "\<dots> < 2 ^ 992 * 2 ^ 32" using assms by simp
  also have "\<dots> = (2::real) ^ 1024" by (simp flip: power_add)
  finally show ?thesis by (simp add: encode_price_def)
qed

lemma encode_price_overflow:
  assumes "2 ^ 992 \<le> \<bar>price\<bar>"
  shows "encode_price price = Inl OverflowError"
proof -
  have "(2::real) ^ 1024 = 2 ^ 992 * 2 ^ 32" by (simp flip: power_add)
  also have "\<dots> \<le> \<bar>price\<bar> * 2 ^ 32" using assms by simp
  also have "\<dots> = \<bar>price * 2 ^ 32\<bar>" by (simp add: abs_mult)
  finally show ?thesis by (simp add: encode_price_def)
qed

lemma write_price_call_in_range:
  "\<bar>price\<bar> < 2 ^ 992 \<Longrightarrow> write_price_call d reg_h reg_l price = write_price d reg_h reg_l price"
  by (simp add: write_price_call_def write_price_def encode_price_in_range split_beta)

text \<open>
  Claim C2, as stated: a price with \<open>|price| \<ge> 2^16\<close> makes the encode operation fail
  with a range error instead of producing a wrapped encoding. At \<open>price = 65536\<close>
  nothing is raised: the words are \<open>(0, 0)\<close>, those of \<open>0.0\<close>, and on an initialised
  driver they are written.
\<close>

theorem write_price_out_of_range_succeeds:
  "\<bar>65536 :: real\<bar> \<ge> 2 ^ 16 \<and>
   encode_price 65536 = Inr (0, 0) \<and>
   encode_price 0 = Inr (0, 0) \<and>
   write_price_call \<lparr>simulation_mode = False, mmio = Some []\<rparr>
       REG_BID_PRICE_H REG_BID_PRICE_L 65536 =
     Inr \<lparr>simulation_mode = False, mmio = Some [(0x008, 0), (0x00C, 0)]\<rparr>"
  by (simp add: write_price_call_def encode_price_def write_reg_def and_then_def
      price_words_def py_int_def REG_BID_PRICE_H_def REG_BID_PRICE_L_def)

text \<open>
  Claim C2, amended: for every price with \<open>|price| < 2^992\<close> the encode operation does
  not fail: it produces \<open>(high, low)\<close> with
  \<open>high * 2^32 + low = int(price * 2^32) mod 2^48\<close>, so a price with
  \<open>2^16 \<le> |price| < 2^992\<close> is wrapped silently instead of being refused, and a price
  within range does not fail; in simulation mode nothing is written, on an initialised
  driver the two words are written, and a driver whose MMIO window was never created
  fails on the first write. For \<open>|price| \<ge> 2^992\<close> the scaled price is infinite and
  \<open>int\<close> raises \<open>OverflowError\<close> before anything is written.
\<close>

theorem encode_price_wraps:
  "(\<bar>price\<bar> < 2 ^ 992 \<longrightarrow>
      encode_price price = Inr (price_words price) \<and>
      fst (price_words price) * 2 ^ 32 + snd (price_words price) =
        py_int (price * 2 ^ 32) mod 2 ^ 48 \<and>
      write_price_call d reg_h reg_l price =
        (if simulation_mode d then Inr d
         else (case mmio d of
                 None \<Rightarrow> Inl AttributeError
               | Some ws \<Rightarrow>
                   Inr (d\<lparr>mmio := Some (ws @ [(reg_h, fst (price_words price)),
                                               (reg_l, snd (price_words price))])\<rparr>)))) \<and>
   (2 ^ 992 \<le> \<bar>price\<bar> \<longrightarrow>
      encode_price price = Inl OverflowError \<and>
      write_price_call d reg_h reg_l price = Inl OverflowError)"
proof (intro conjI impI)
  assume "\<bar>price\<bar> < 2 ^ 992"
  then show "encode_price price = Inr (price_words price)"
    by (rule encode_price_in_range)
  show "fst (price_words price) * 2 ^ 32 + snd (price_words price) =
      py_int (price * 2 ^ 32) mod 2 ^ 48"
    by (rule price_words_sum)
  show "write_price_call d reg_h reg_l price =
      (if simulation_mode d then Inr d
       else (case mmio d of
               None \<Rightarrow> Inl AttributeError
             | Some ws \<Rightarrow>
                 Inr (d\<lparr>mmio := Some (ws @ [(reg_h, fst (price_words price)),
                                             (reg_l, snd (price_words price))])\<rparr>)))"
    using \<open>\<bar>price\<bar> < 2 ^ 992\<close> by (simp only: write_price_call_in_range write_price_eq)
next
  assume "2 ^ 992 \<le> \<bar>price\<bar>"
  then show "encode_price price = Inl OverflowError"
    by (rule encode_price_overflow)
  then show "write_price_call d reg_h reg_l price = Inl OverflowError"
    by (simp add: write_price_call_def)
qed

theorem encode_price_wraps_witness:
  "\<bar>65536 :: real\<bar> < 2 ^ 992 \<and>
   encode_price 65536 = Inr (price_words 65536) \<and>
   fst (price_words 65536) * 2 ^ 32 + snd (price_words 65536) =
     py_int (65536 * 2 ^ 32) mod 2 ^ 48 \<and>
   price_words 65536 = (0, 0) \<and>
   (2 :: real) ^ 992 \<le> \<bar>2 ^ 992\<bar> \<and>
   encode_price (2 ^ 992) = Inl OverflowError \<and>
   write_price_call \<lparr>simulation_mode = True, mmio = None\<rparr>
       REG_BID_PRICE_H REG_BID_PRICE_L (2 ^ 992) = Inl OverflowError"
proof -
  have a: "\<bar>65536 :: real\<bar> < 2 ^ 992" by simp
  have b: "(2 :: real) ^ 992 \<le> \<bar>2 ^ 992\<bar>" by simp
  have c: "price_words 65536 = (0, 0)"
    by (simp add: price_words_def py_int_def)
  from encode_price_wraps [of 65536 "\<lparr>simulation_mode = True, mmio = None\<rparr>"
      REG_BID_PRICE_H REG_BID_PRICE_L]
    encode_price_wraps [of "2 ^ 992" "\<lparr>simulation_mode = True, mmio = None\<rparr>"
      REG_BID_PRICE_H REG_BID_PRICE_L] a b c
  show ?thesis by blast
qed


section \<open>Properties of the dozenal converter\<close>

text \<open>
  Claim C3: for every value, negative ones included, \<open>from_dozenal(to_dozenal(value))\<close>
  is within \<open>12^-8\<close> of the value. The source handles the sign of the integer part in
  \<open>_int_to_dozenal\<close> and the leading \<open>-\<close> in \<open>from_dozenal\<close>, but \<open>to_dozenal\<close>
  passes the signed fractional part on: at \<open>-1.25\<close> the digit is \<open>int(-3.0) = -3\<close>,
  \<open>DOZENAL_DIGITS[-3]\<close> is \<open>9\<close>, the string is \<open>-1.9\<close>, and it reads back as
  \<open>-1.75\<close>.
\<close>

theorem dozenal_roundtrip_negative:
  "to_dozenal (- 1.25) = Inr ''-1.9'' \<and>
   from_dozenal ''-1.9'' = Inr (- 1.75) \<and>
   \<not> \<bar>(- 1.75) - (- 1.25 :: real)\<bar> \<le> 1 / 12 ^ 8"
  by (simp add: to_dozenal_def py_int_def int_to_dozenal_def int_to_dozenal_loop.simps
      frac_to_dozenal_def py_getitem_def DOZENAL_DIGITS_def Let_def numeral_eq_Suc
      from_dozenal_def py_str_index_def py_upper_def)









text \<open>The digits written and the value read back.\<close>

lemma digit_char_table:
  "py_getitem DOZENAL_DIGITS 0 = Inr CHR ''0''" "digit_char CHR ''0'' 0"
  "py_getitem DOZENAL_DIGITS 1 = Inr CHR ''1''" "digit_char CHR ''1'' 1"
  "py_getitem DOZENAL_DIGITS 2 = Inr CHR ''2''" "digit_char CHR ''2'' 2"
  "py_getitem DOZENAL_DIGITS 3 = Inr CHR ''3''" "digit_char CHR ''3'' 3"
  "py_getitem DOZENAL_DIGITS 4 = Inr CHR ''4''" "digit_char CHR ''4'' 4"
  "py_getitem DOZENAL_DIGITS 5 = Inr CHR ''5''" "digit_char CHR ''5'' 5"
  "py_getitem DOZENAL_DIGITS 6 = Inr CHR ''6''" "digit_char CHR ''6'' 6"
  "py_getitem DOZENAL_DIGITS 7 = Inr CHR ''7''" "digit_char CHR ''7'' 7"
  "py_getitem DOZENAL_DIGITS 8 = Inr CHR ''8''" "digit_char CHR ''8'' 8"
  "py_getitem DOZENAL_DIGITS 9 = Inr CHR ''9''" "digit_char CHR ''9'' 9"
  "py_getitem DOZENAL_DIGITS 10 = Inr CHR ''A''" "digit_char CHR ''A'' 10"
  "py_getitem DOZENAL_DIGITS 11 = Inr CHR ''B''" "digit_char CHR ''B'' 11"
  by (simp_all add: py_getitem_def DOZENAL_DIGITS_def digit_char_def py_str_index_def
      py_upper_def)

lemma getitem_digit_char:
  assumes "0 \<le> i" "i < 12"
  shows "\<exists>c. py_getitem DOZENAL_DIGITS i = Inr c \<and> digit_char c (nat i)"
proof -
  from assms have "i = 0 \<or> i = 1 \<or> i = 2 \<or> i = 3 \<or> i = 4 \<or> i = 5 \<or> i = 6 \<or> i = 7 \<or>
      i = 8 \<or> i = 9 \<or> i = 10 \<or> i = 11" by arith
  then show ?thesis
    by (elim disjE) (simp_all add: digit_char_table digit_char_table(4) [unfolded One_nat_def])
qed

lemma int_loop_digits:
  "0 \<le> v \<Longrightarrow>
   \<exists>ds. int_to_dozenal_loop v acc = Inr (acc @ ds) \<and>
        (\<forall>c \<in> set ds. c \<noteq> CHR ''.'' \<and> c \<noteq> CHR ''-'') \<and>
        (0 < v \<longrightarrow> ds \<noteq> []) \<and>
        (\<forall>i r. from_dozenal_int_loop i ds r = Inr (r + of_int v * 12 ^ i))"
proof (induction v acc rule: int_to_dozenal_loop.induct)
  case (1 v acc)
  show ?case
  proof (cases "v > 0")
    case False
    with "1.prems" have "v = 0" by simp
    then show ?thesis by (subst int_to_dozenal_loop.simps) simp
  next
    case True
    obtain c where c: "py_getitem DOZENAL_DIGITS (v mod 12) = Inr c"
      and dc: "digit_char c (nat (v mod 12))"
      using getitem_digit_char [of "v mod 12"] by auto
    have "0 \<le> v div 12" using True by simp
    from "1.IH" [OF True c this] obtain ds where
      ds: "int_to_dozenal_loop (v div 12) (acc @ [c]) = Inr ((acc @ [c]) @ ds)"
      and nodot: "\<forall>c \<in> set ds. c \<noteq> CHR ''.'' \<and> c \<noteq> CHR ''-''"
      and dec: "\<forall>i r. from_dozenal_int_loop i ds r = Inr (r + of_int (v div 12) * 12 ^ i)"
      by blast
    have run: "int_to_dozenal_loop v acc = Inr (acc @ (c # ds))"
      using True c ds by (subst int_to_dozenal_loop.simps) simp
    have chars: "\<forall>x \<in> set (c # ds). x \<noteq> CHR ''.'' \<and> x \<noteq> CHR ''-''"
      using nodot dc by (simp add: digit_char_def)
    have dec_c: "from_dozenal_int_loop i (c # ds) r = Inr (r + of_int v * 12 ^ i)" for i r
    proof -
      have "real_of_int v = real_of_int (v mod 12) + real_of_int (v div 12) * 12"
        by (metis add.commute mult.commute mult_div_mod_eq of_int_add of_int_mult of_int_numeral)
      then have "r + real (nat (v mod 12)) * 12 ^ i + real_of_int (v div 12) * 12 ^ Suc i =
          r + real_of_int v * 12 ^ i"
        by (simp add: algebra_simps)
      then show ?thesis
        using dc dec by (simp add: digit_char_def)
    qed
    from run chars dec_c show ?thesis by blast
  qed
qed


lemma frac_loop_digits:
  "0 \<le> f \<Longrightarrow> f < 1 \<Longrightarrow>
   \<exists>ds x. frac_to_dozenal_loop n f acc = Inr (acc @ ds) \<and>
        (\<forall>c \<in> set ds. c \<noteq> CHR ''.'' \<and> c \<noteq> CHR ''-'') \<and>
        (0 < n \<longrightarrow> ds \<noteq> []) \<and>
        (\<forall>i r. from_dozenal_frac_loop i ds r = Inr (r + x / 12 ^ i)) \<and>
        0 \<le> f - x \<and> (f - x < 1 / 12 ^ n \<or> f - x < 1 / (12 * 10 ^ 10))"
proof (induction n arbitrary: f acc)
  case 0
  have "frac_to_dozenal_loop 0 f acc = Inr (acc @ [])" by simp
  moreover have "\<forall>i r. from_dozenal_frac_loop i [] r = Inr (r + 0 / 12 ^ i)" by simp
  ultimately show ?case using 0 by (intro exI [of _ "[]"] exI [of _ 0]) simp
next
  case (Suc n)
  define d where "d = \<lfloor>f * 12\<rfloor>"
  define v2 where "v2 = f * 12 - of_int d"
  have d0: "0 \<le> d" using Suc.prems by (simp add: d_def)
  have "f * 12 < 12" using Suc.prems by simp
  then have d1: "d < 12" by (simp add: d_def floor_less_iff)
  have pd: "py_int (f * 12) = d" using Suc.prems by (simp add: py_int_def d_def)
  have v20: "0 \<le> v2" by (simp add: v2_def d_def)
  have v21: "v2 < 1" unfolding v2_def d_def by linarith
  obtain c where c: "py_getitem DOZENAL_DIGITS d = Inr c" and dc: "digit_char c (nat d)"
    using getitem_digit_char [OF d0 d1] by auto
  have rd: "real (nat d) = real_of_int d" using d0 by simp
  have fx: "f - (real_of_int d + x) / 12 = (v2 - x) / 12" for x
    by (simp add: v2_def field_simps)
  show ?case
  proof (cases "v2 < 1 / 10 ^ 10")
    case True
    have run: "frac_to_dozenal_loop (Suc n) f acc = Inr (acc @ [c])"
      using True c by (simp add: pd Let_def v2_def)
    have dec: "\<forall>i r. from_dozenal_frac_loop i [c] r = Inr (r + (real_of_int d / 12) / 12 ^ i)"
      using dc by (simp add: digit_char_def rd)
    have "f - real_of_int d / 12 = v2 / 12" using fx [of 0] by simp
    then have err: "0 \<le> f - real_of_int d / 12" "f - real_of_int d / 12 < 1 / (12 * 10 ^ 10)"
      using v20 True by simp_all
    show ?thesis
      using run dec err dc
      by (intro exI [of _ "[c]"] exI [of _ "real_of_int d / 12"]) (simp add: digit_char_def)
  next
    case False
    from Suc.IH [OF v20 v21, of "acc @ [c]"] obtain ds x where
      ds: "frac_to_dozenal_loop n v2 (acc @ [c]) = Inr ((acc @ [c]) @ ds)"
      and nodot: "\<forall>c \<in> set ds. c \<noteq> CHR ''.'' \<and> c \<noteq> CHR ''-''"
      and dec': "\<forall>i r. from_dozenal_frac_loop i ds r = Inr (r + x / 12 ^ i)"
      and e0: "0 \<le> v2 - x" and e1: "v2 - x < 1 / 12 ^ n \<or> v2 - x < 1 / (12 * 10 ^ 10)"
      by blast
    have run: "frac_to_dozenal_loop (Suc n) f acc = Inr (acc @ (c # ds))"
      using False c ds by (simp add: pd Let_def v2_def)
    have dec: "from_dozenal_frac_loop i (c # ds) r =
        Inr (r + ((real_of_int d + x) / 12) / 12 ^ i)" for i r
      using dc dec' by (simp add: digit_char_def rd add_divide_distrib)
    have err0: "0 \<le> f - (real_of_int d + x) / 12"
      using e0 by (simp add: fx)
    have err1: "f - (real_of_int d + x) / 12 < 1 / 12 ^ Suc n \<or>
        f - (real_of_int d + x) / 12 < 1 / (12 * 10 ^ 10)"
    proof -
      from e1 show ?thesis
      proof
        assume "v2 - x < 1 / 12 ^ n"
        then have "(v2 - x) / 12 < (1 / 12 ^ n) / 12" by (simp add: divide_strict_right_mono)
        then show ?thesis by (simp add: fx)
      next
        assume "v2 - x < 1 / (12 * 10 ^ 10)"
        moreover have "(v2 - x) / 12 \<le> v2 - x" using e0 by simp
        ultimately show ?thesis by (simp add: fx)
      qed
    qed
    show ?thesis
      using run dec err0 err1 nodot dc
      by (intro exI [of _ "c # ds"] exI [of _ "(real_of_int d + x) / 12"])
         (simp add: digit_char_def)
  qed
qed

lemma py_split_no_sep:
  "sep \<notin> set a \<Longrightarrow> py_split sep a = [a]"
  by (induction a) auto

lemma py_split_one_sep:
  "sep \<notin> set a \<Longrightarrow> sep \<notin> set b \<Longrightarrow> py_split sep (a @ sep # b) = [a, b]"
  by (induction a) (auto simp: py_split_no_sep)


lemma int_to_dozenal_nonneg:
  assumes "0 \<le> n"
  shows "\<exists>s. int_to_dozenal n = Inr s \<and> s \<noteq> [] \<and>
           (\<forall>c \<in> set s. c \<noteq> CHR ''.'' \<and> c \<noteq> CHR ''-'') \<and>
           from_dozenal_int_loop 0 (rev s) 0 = Inr (of_int n)"
proof (cases "n = 0")
  case True
  have "from_dozenal_int_loop 0 (rev ''0'') 0 = Inr (of_int 0)"
    using digit_char_table(2) by (simp add: digit_char_def)
  with True show ?thesis by (simp add: int_to_dozenal_def)
next
  case False
  with assms have pos: "0 < n" by simp
  from int_loop_digits [OF assms, of "[]"] pos obtain ds where
    ds: "int_to_dozenal_loop n [] = Inr ds" "ds \<noteq> []"
    and nodot: "\<forall>c \<in> set ds. c \<noteq> CHR ''.'' \<and> c \<noteq> CHR ''-''"
    and dec: "\<forall>i r. from_dozenal_int_loop i ds r = Inr (r + of_int n * 12 ^ i)"
    by auto
  have "int_to_dozenal n = Inr (rev ds)"
    using pos ds by (simp add: int_to_dozenal_def)
  moreover have "from_dozenal_int_loop 0 (rev (rev ds)) 0 = Inr (of_int n)"
    using dec by simp
  ultimately show ?thesis using ds(2) nodot by auto
qed

lemma from_dozenal_int_only:
  assumes "s \<noteq> []" and "\<forall>c \<in> set s. c \<noteq> CHR ''.'' \<and> c \<noteq> CHR ''-''"
    and "from_dozenal_int_loop 0 (rev s) 0 = Inr a"
  shows "from_dozenal s = Inr a"
proof -
  obtain c cs where s: "s = c # cs" using assms(1) by (cases s) auto
  have neg: "take 1 s \<noteq> ''-''" using assms(2) by (simp add: s)
  have sp: "py_split CHR ''.'' s = [s]" using assms(2) by (intro py_split_no_sep) auto
  show ?thesis
    unfolding from_dozenal_def Let_def using neg sp assms(3) by simp
qed

lemma from_dozenal_int_frac:
  assumes "s \<noteq> []" and "\<forall>c \<in> set s. c \<noteq> CHR ''.'' \<and> c \<noteq> CHR ''-''"
    and "\<forall>c \<in> set t. c \<noteq> CHR ''.'' \<and> c \<noteq> CHR ''-''"
    and "from_dozenal_int_loop 0 (rev s) 0 = Inr a"
    and "from_dozenal_frac_loop 0 t a = Inr b"
  shows "from_dozenal (s @ ''.'' @ t) = Inr b"
proof -
  obtain c cs where s: "s = c # cs" using assms(1) by (cases s) auto
  have neg: "take 1 (s @ ''.'' @ t) \<noteq> ''-''" using assms(2) by (simp add: s)
  have sp: "py_split CHR ''.'' (s @ ''.'' @ t) = [s, t]"
    using assms(2,3) py_split_one_sep [of "CHR ''.''" s t] by auto
  show ?thesis
    unfolding from_dozenal_def Let_def using neg sp assms(4,5) by simp
qed

text \<open>
  For a value that is not negative the round trip does hold: \<open>to_dozenal\<close> returns a
  string, \<open>from_dozenal\<close> reads it, and the value read is below the original by less
  than \<open>12^-8\<close>.
\<close>

lemma dozenal_roundtrip_nonneg:
  assumes "0 \<le> v"
  shows "\<exists>s x. to_dozenal v = Inr s \<and> from_dozenal s = Inr x \<and>
           0 \<le> v - x \<and> v - x < 1 / 12 ^ 8"
proof (cases "v = 0")
  case True
  have "from_dozenal ''0'' = Inr 0"
    using digit_char_table(2) by (intro from_dozenal_int_only) (simp_all add: digit_char_def)
  with True show ?thesis by (simp add: to_dozenal_def)
next
  case False
  define n where "n = \<lfloor>v\<rfloor>"
  define f where "f = v - of_int n"
  have n0: "0 \<le> n" using assms by (simp add: n_def)
  have pn: "py_int v = n" using assms by (simp add: py_int_def n_def)
  have f0: "0 \<le> f" by (simp add: f_def n_def)
  have f1: "f < 1" unfolding f_def n_def by linarith
  obtain s where s: "int_to_dozenal n = Inr s" "s \<noteq> []"
    and s_chars: "\<forall>c \<in> set s. c \<noteq> CHR ''.'' \<and> c \<noteq> CHR ''-''"
    and s_val: "from_dozenal_int_loop 0 (rev s) 0 = Inr (of_int n)"
    using int_to_dozenal_nonneg [OF n0] by blast
  show ?thesis
  proof (cases "f = 0")
    case True
    have "to_dozenal v = Inr s"
      unfolding to_dozenal_def Let_def pn f_def [symmetric]
      using False s(1) True by (simp add: frac_to_dozenal_def)
    moreover have "from_dozenal s = Inr (of_int n)"
      using s(2) s_chars s_val by (rule from_dozenal_int_only)
    moreover have "v - of_int n = 0" using True by (simp add: f_def)
    ultimately show ?thesis by simp
  next
    case nz: False
    from frac_loop_digits [OF f0 f1, of 8 "[]"] obtain ds x where
      ds: "frac_to_dozenal_loop 8 f [] = Inr ds" "ds \<noteq> []"
      and ds_chars: "\<forall>c \<in> set ds. c \<noteq> CHR ''.'' \<and> c \<noteq> CHR ''-''"
      and ds_val: "\<forall>i r. from_dozenal_frac_loop i ds r = Inr (r + x / 12 ^ i)"
      and e0: "0 \<le> f - x" and e1: "f - x < 1 / 12 ^ 8 \<or> f - x < 1 / (12 * 10 ^ 10)"
      by auto
    have "to_dozenal v = Inr (s @ ''.'' @ ds)"
      unfolding to_dozenal_def Let_def pn f_def [symmetric]
      using False s(1) nz ds by (simp add: frac_to_dozenal_def)
    moreover have "from_dozenal (s @ ''.'' @ ds) = Inr (of_int n + x)"
      using s(2) s_chars ds_chars s_val
    proof (rule from_dozenal_int_frac)
      show "from_dozenal_frac_loop 0 ds (real_of_int n) = Inr (real_of_int n + x)"
        using ds_val by simp
    qed
    moreover have "v - (of_int n + x) = f - x" by (simp add: f_def)
    moreover have "f - x < 1 / 12 ^ 8" using e1 by auto
    ultimately show ?thesis using e0 by auto
  qed
qed


section \<open>Properties of the price levels\<close>






text \<open>
  The example of the specification's section 8: the mid price 100.265 has
  \<open>cents = 10026\<close>, which is divisible by 6, so the base is Dozenal and the offsets are
  1/12 and 11/12 of the spread.
\<close>

lemma to_dozenal_examples:
  "to_dozenal 100.265 = Inr ''84.321B0591''"
  "to_dozenal 0.03 = Inr ''0.043A0B62''"
  by (simp_all add: to_dozenal_def py_int_def int_to_dozenal_def int_to_dozenal_loop.simps
      frac_to_dozenal_def py_getitem_def DOZENAL_DIGITS_def Let_def numeral_eq_Suc)

lemma optimize_price_levels_example:
  "optimize_price_levels initial_stats 100.25 100.28 100.26 ''market_making'' =
     Inr ([(''entry_price'', PFloat 100.2675),
           (''exit_price'', PFloat 100.2925),
           (''entry_offset'', PFloat 0.0025),
           (''exit_offset'', PFloat 0.0275),
           (''cycles_saved'', PInt 15),
           (''dozenal_mid'', PStr ''84.321B0591''),
           (''dozenal_spread'', PStr ''0.043A0B62''),
           (''base_used'', PStr ''DOZENAL''),
           (''mid_price'', PFloat 100.265),
           (''spread'', PFloat 0.03)],
          initial_stats\<lparr>base12_operations := 1\<rparr>)"
proof -
  have base: "optimal_base_for_value ((100.25 + 100.28) / 2) = DOZENAL"
    by (simp add: optimal_base_for_value_def base_for_cents_def py_int_def
        round_double_examples)
  have mid: "to_dozenal ((100.25 + 100.28) / 2) = Inr ''84.321B0591''"
    using to_dozenal_examples(1) by simp
  have spread: "to_dozenal (100.28 - 100.25) = Inr ''0.043A0B62''"
    using to_dozenal_examples(2) by simp
  show ?thesis
    unfolding optimize_price_levels_def Let_def base optimize_dozenal_def mid spread
    by (simp add: finish_result_def initial_stats_def)
qed


section \<open>Properties of the slippage estimate\<close>








section \<open>Properties of the performance statistics\<close>

lemma stats_keys: "dict_keys (stats_dict s) = {''base12_operations'', ''base10_operations'', ''base2_operations'', ''total_savings_cycles''}"
  by (auto simp: dict_keys_def stats_dict_def)

text \<open>
  Claim C10: \<open>get_performance_stats\<close> never divides by zero. When the three base
  counters are all zero it returns the raw counter record, with no percentage field;
  otherwise their total is positive and the result has, besides the raw counters,
  \<open>total_operations\<close> and the three percentages \<open>100 * counter / total\<close>, which add
  up to 100.
\<close>

theorem get_performance_stats_total:
  "\<exists>r. get_performance_stats s = Inr r \<and>
     (if base12_operations s = 0 \<and> base10_operations s = 0 \<and> base2_operations s = 0
      then r = stats_dict s \<and>
           dict_keys r = {''base12_operations'', ''base10_operations'', ''base2_operations'',
                          ''total_savings_cycles''}
      else
        (let total = base12_operations s + base10_operations s + base2_operations s;
             p12 = 100 * real (base12_operations s) / real total;
             p10 = 100 * real (base10_operations s) / real total;
             p2 = 100 * real (base2_operations s) / real total
         in 0 < total \<and>
            dict_keys r = dict_keys (stats_dict s) \<union>
              {''total_operations'', ''base12_percentage'', ''base10_percentage'',
               ''base2_percentage''} \<and>
            map_of r ''base12_operations'' = Some (PInt (int (base12_operations s))) \<and>
            map_of r ''base10_operations'' = Some (PInt (int (base10_operations s))) \<and>
            map_of r ''base2_operations'' = Some (PInt (int (base2_operations s))) \<and>
            map_of r ''total_savings_cycles'' = Some (PInt (int (total_savings_cycles s))) \<and>
            map_of r ''total_operations'' = Some (PInt (int total)) \<and>
            map_of r ''base12_percentage'' = Some (PFloat p12) \<and>
            map_of r ''base10_percentage'' = Some (PFloat p10) \<and>
            map_of r ''base2_percentage'' = Some (PFloat p2) \<and>
            p12 + p10 + p2 = 100))"
proof (cases "base12_operations s = 0 \<and> base10_operations s = 0 \<and> base2_operations s = 0")
  case True
  then show ?thesis by (simp add: get_performance_stats_def stats_keys)
next
  case False
  define total where "total = base12_operations s + base10_operations s + base2_operations s"
  have pos: "0 < total" using False by (auto simp: total_def)
  have t: "int (base12_operations s) + (int (base10_operations s) + int (base2_operations s)) = int total"
    by (simp add: total_def)
  have rt: "real total =
      real (base12_operations s) + real (base10_operations s) + real (base2_operations s)"
    by (simp add: total_def)
  have sum: "100 * real (base12_operations s) / real total +
      100 * real (base10_operations s) / real total +
      100 * real (base2_operations s) / real total = 100"
  proof -
    have "100 * real (base12_operations s) / real total +
        100 * real (base10_operations s) / real total +
        100 * real (base2_operations s) / real total =
        100 * (real (base12_operations s) + real (base10_operations s) +
               real (base2_operations s)) / real total"
      by (simp add: add_divide_distrib distrib_left)
    also have "\<dots> = 100 * real total / real total"
      by (simp only: rt)
    also have "\<dots> = 100"
      using pos by simp
    finally show ?thesis .
  qed
  have r: "get_performance_stats s = Inr
     (AList.update ''base2_percentage'' (PFloat (100 * real (base2_operations s) / real total))
       (AList.update ''base10_percentage'' (PFloat (100 * real (base10_operations s) / real total))
         (AList.update ''base12_percentage'' (PFloat (100 * real (base12_operations s) / real total))
           (AList.update ''total_operations'' (PInt (int total)) (stats_dict s)))))"
    using pos by (simp add: get_performance_stats_def py_truediv_def t Let_def)
  have keys: "dict_keys
     (AList.update ''base2_percentage'' (PFloat (100 * real (base2_operations s) / real total))
       (AList.update ''base10_percentage'' (PFloat (100 * real (base10_operations s) / real total))
         (AList.update ''base12_percentage'' (PFloat (100 * real (base12_operations s) / real total))
           (AList.update ''total_operations'' (PInt (int total)) (stats_dict s))))) =
     dict_keys (stats_dict s) \<union>
       {''total_operations'', ''base12_percentage'', ''base10_percentage'', ''base2_percentage''}"
    unfolding dict_keys_def dom_map_of_conv_image_fst [symmetric]
    by (simp add: update_conv' insert_commute)
  show ?thesis
    unfolding r Let_def total_def [symmetric] using False pos sum keys
    by (simp add: update_conv' stats_dict_def)
qed


text \<open>The two branches on concrete counters.\<close>

lemma get_performance_stats_examples:
  "get_performance_stats initial_stats =
     Inr [(''base12_operations'', PInt 0), (''base10_operations'', PInt 0),
          (''base2_operations'', PInt 0), (''total_savings_cycles'', PInt 0)]"
  "get_performance_stats (initial_stats\<lparr>base12_operations := 1, base2_operations := 2\<rparr>) =
     Inr [(''base12_operations'', PInt 1), (''base10_operations'', PInt 0),
          (''base2_operations'', PInt 2), (''total_savings_cycles'', PInt 0),
          (''total_operations'', PInt 3),
          (''base12_percentage'', PFloat (100 / 3)),
          (''base10_percentage'', PFloat 0),
          (''base2_percentage'', PFloat (200 / 3))]"
  by (simp_all add: get_performance_stats_def initial_stats_def stats_dict_def py_truediv_def)


section \<open>Properties of the register protocol\<close>
















end
